theory Spec2Isabelle
  imports Main "HOL-Library.Word" "HOL-Library.Sublist" "HOL-Library.AList"
begin

section \<open>Strings, buffers and objects of the host language\<close>

text \<open>
  A JavaScript string is a sequence of 16-bit code units, a \<open>Buffer\<close> a sequence of
  bytes. String literals of the source are written through \<open>lit\<close>.
\<close>

type_synonym jsstring = "16 word list"
type_synonym buffer = "8 word list"

definition lit :: "string \<Rightarrow> jsstring" where
  "lit s = map (\<lambda>c. of_nat (of_char c)) s"

definition nl :: jsstring where
  "nl = [10]"

definition sq :: jsstring where
  "sq = [39]"

definition bsl :: jsstring where
  "bsl = [92]"

text \<open>
  \<open>String.prototype.trim\<close> removes the code units of the grammar's WhiteSpace and
  LineTerminator productions from both ends.
\<close>

definition is_ws :: "16 word \<Rightarrow> bool" where
  "is_ws u \<longleftrightarrow>
     u = 0x09 \<or> u = 0x0A \<or> u = 0x0B \<or> u = 0x0C \<or> u = 0x0D \<or> u = 0x20 \<or> u = 0xA0 \<or>
     u = 0x1680 \<or> (0x2000 \<le> u \<and> u \<le> 0x200A) \<or> u = 0x2028 \<or> u = 0x2029 \<or>
     u = 0x202F \<or> u = 0x205F \<or> u = 0x3000 \<or> u = 0xFEFF"

definition trim :: "jsstring \<Rightarrow> jsstring" where
  "trim s = rev (dropWhile is_ws (rev (dropWhile is_ws s)))"

text \<open>\<open>script.replace(/"/g, '\\"')\<close>: every double quote gets a backslash in front.\<close>

definition replace_dquote :: "jsstring \<Rightarrow> jsstring" where
  "replace_dquote s = concat (map (\<lambda>c. if c = 0x22 then [0x5C, 0x22] else [c]) s)"

text \<open>
  The cache object is a \<open>Record<string, string>\<close>: its own properties, in insertion
  order. Reading a property that is not an own property goes to \<open>Object.prototype\<close>,
  whose members are objects and functions, never strings. Assigning a string to
  \<open>__proto__\<close> where it is not an own property runs the prototype's setter, which
  ignores a value that is neither an object nor null.
\<close>

type_synonym jsobject = "(jsstring \<times> jsstring) list"

datatype jsvalue = Undefined | Str jsstring | Inherited

definition proto_keys :: "jsstring list" where
  "proto_keys = map lit
     [''__proto__'', ''constructor'', ''hasOwnProperty'', ''isPrototypeOf'',
      ''propertyIsEnumerable'', ''toLocaleString'', ''toString'', ''valueOf'',
      ''__defineGetter__'', ''__defineSetter__'', ''__lookupGetter__'',
      ''__lookupSetter__'']"

definition prop_get :: "jsobject \<Rightarrow> jsstring \<Rightarrow> jsvalue" where
  "prop_get obj k =
     (case map_of obj k of
        Some v \<Rightarrow> Str v
      | None \<Rightarrow> if k \<in> set proto_keys then Inherited else Undefined)"

definition prop_set :: "jsobject \<Rightarrow> jsstring \<Rightarrow> jsstring \<Rightarrow> jsobject" where
  "prop_set obj k v =
     (if k = lit ''__proto__'' \<and> map_of obj k = None then obj else AList.update k v obj)"

definition prop_delete :: "jsobject \<Rightarrow> jsstring \<Rightarrow> jsobject" where
  "prop_delete obj k = AList.delete k obj"

fun truthy :: "jsvalue \<Rightarrow> bool" where
  "truthy Undefined = False"
| "truthy (Str s) = (s \<noteq> [])"
| "truthy Inherited = True"

section \<open>The world outside the process\<close>

datatype error =
    FsError jsstring
  | SyntaxError
  | TypeError
  | CryptoError
  | ExecError
  | UnsupportedPlatform
  | SecretToolMissing

text \<open>
  A file system call can fail for reasons the program does not control (permissions, a
  full disk). The schedule \<open>faults\<close> decides it: every fallible call takes the head of
  the schedule, and an empty schedule means that nothing fails. \<open>Partial n\<close> is a write
  that opened and truncated the file and failed after \<open>n\<close> bytes.
\<close>

datatype fault = NoFault | Fail | Partial nat

record 't world =
  files :: "jsstring \<rightharpoonup> buffer"
  modes :: "jsstring \<rightharpoonup> nat"
  dirs :: "jsstring set"
  entropy :: "nat \<Rightarrow> 8 word"
  drawn :: nat
  faults :: "fault list"
  warnings :: "(jsstring \<times> error) list"
  spawned :: "(jsstring \<times> jsstring option) list"
  ext :: 't

type_synonym ('a, 't) io = "'t world \<Rightarrow> (error + 'a) \<times> 't world"

definition retE :: "'a \<Rightarrow> ('a, 't) io" where
  "retE x w = (Inr x, w)"

definition throwE :: "error \<Rightarrow> ('a, 't) io" where
  "throwE e w = (Inl e, w)"

definition bindE :: "('a, 't) io \<Rightarrow> ('a \<Rightarrow> ('b, 't) io) \<Rightarrow> ('b, 't) io" where
  "bindE m f w = (case m w of (Inl e, w') \<Rightarrow> (Inl e, w') | (Inr x, w') \<Rightarrow> f x w')"

definition catchE :: "('a, 't) io \<Rightarrow> (error \<Rightarrow> ('a, 't) io) \<Rightarrow> ('a, 't) io" where
  "catchE m handler w = (case m w of (Inl e, w') \<Rightarrow> handler e w' | (Inr x, w') \<Rightarrow> (Inr x, w'))"

definition unlessE :: "('t world \<Rightarrow> bool) \<Rightarrow> (unit, 't) io \<Rightarrow> (unit, 't) io" where
  "unlessE c m w = (if \<not> c w then m w else (Inr (), w))"

definition next_fault :: "'t world \<Rightarrow> fault \<times> 't world" where
  "next_fault w = (case faults w of [] \<Rightarrow> (NoFault, w) | f # fs \<Rightarrow> (f, w\<lparr>faults := fs\<rparr>))"

definition existsSync :: "jsstring \<Rightarrow> 't world \<Rightarrow> bool" where
  "existsSync p w \<longleftrightarrow> p \<in> dirs w \<or> files w p \<noteq> None"

definition mkdirSync :: "jsstring \<Rightarrow> (unit, 't) io" where
  "mkdirSync p w =
     (case next_fault w of
        (NoFault, w') \<Rightarrow> (Inr (), w'\<lparr>dirs := insert p (dirs w')\<rparr>)
      | (_, w') \<Rightarrow> (Inl (FsError p), w'))"

definition writeFileSync :: "jsstring \<Rightarrow> buffer \<Rightarrow> (unit, 't) io" where
  "writeFileSync p data w =
     (case next_fault w of
        (NoFault, w') \<Rightarrow> (Inr (), w'\<lparr>files := (files w')(p \<mapsto> data)\<rparr>)
      | (Fail, w') \<Rightarrow> (Inl (FsError p), w')
      | (Partial n, w') \<Rightarrow> (Inl (FsError p), w'\<lparr>files := (files w')(p \<mapsto> take n data)\<rparr>))"

definition readFileSync :: "jsstring \<Rightarrow> (buffer, 't) io" where
  "readFileSync p w =
     (case next_fault w of
        (NoFault, w') \<Rightarrow>
          (case files w' p of None \<Rightarrow> (Inl (FsError p), w') | Some b \<Rightarrow> (Inr b, w'))
      | (_, w') \<Rightarrow> (Inl (FsError p), w'))"

definition chmodSync :: "jsstring \<Rightarrow> nat \<Rightarrow> (unit, 't) io" where
  "chmodSync p m w =
     (case next_fault w of
        (NoFault, w') \<Rightarrow>
          (if existsSync p w' then (Inr (), w'\<lparr>modes := (modes w')(p \<mapsto> m)\<rparr>)
           else (Inl (FsError p), w'))
      | (_, w') \<Rightarrow> (Inl (FsError p), w'))"

definition unlinkSync :: "jsstring \<Rightarrow> (unit, 't) io" where
  "unlinkSync p w =
     (case next_fault w of
        (NoFault, w') \<Rightarrow>
          (case files w' p of
             None \<Rightarrow> (Inl (FsError p), w')
           | Some _ \<Rightarrow> (Inr (), w'\<lparr>files := (files w')(p := None)\<rparr>))
      | (_, w') \<Rightarrow> (Inl (FsError p), w'))"

text \<open>The file mode \<open>0o600\<close>: read and write for the owner only.\<close>

definition mode_0o600 :: nat where
  "mode_0o600 = 6 * 8 * 8"

text \<open>\<open>crypto.randomBytes(n)\<close> draws the next \<open>n\<close> bytes of the entropy source.\<close>

definition randomBytes :: "nat \<Rightarrow> (buffer, 't) io" where
  "randomBytes n w = (Inr (map (entropy w) [drawn w ..< drawn w + n]), w\<lparr>drawn := drawn w + n\<rparr>)"

definition console_warn :: "jsstring \<Rightarrow> error \<Rightarrow> (unit, 't) io" where
  "console_warn msg e w = (Inr (), w\<lparr>warnings := warnings w @ [(msg, e)]\<rparr>)"

section \<open>The host: process globals and library functions\<close>

datatype platform = Darwin | Win32 | Linux | OtherPlatform

text \<open>
  What the program takes from Node and from the operating system: \<open>process.platform\<close>,
  \<open>process.env.APPDATA\<close>, \<open>os.homedir\<close>, \<open>path.join\<close>, the UTF-8 and base64 codecs
  of \<open>Buffer\<close>, \<open>JSON\<close> (the first argument of \<open>JSON_stringify\<close> is the indentation),
  AES-256-GCM (encryption gives ciphertext and tag; decryption checks the tag), and the
  shell that \<open>execSync\<close> hands a command line and, optionally, standard input to.
  \<open>JSON_parse\<close> gives the object that a text denotes when the text denotes an object
  with string values, which is the type \<open>_readCache\<close> declares for its result; any other
  text counts as one that does not parse.
\<close>

record 't host =
  platform :: platform
  APPDATA :: "jsstring option"
  homedir :: jsstring
  path_join :: "jsstring list \<Rightarrow> jsstring"
  utf8_encode :: "jsstring \<Rightarrow> buffer"
  utf8_decode :: "buffer \<Rightarrow> jsstring"
  base64_encode :: "buffer \<Rightarrow> jsstring"
  base64_decode :: "jsstring \<Rightarrow> buffer"
  JSON_stringify :: "nat \<Rightarrow> jsobject \<Rightarrow> jsstring"
  JSON_parse :: "jsstring \<Rightarrow> error + jsobject"
  gcm_encrypt :: "buffer \<Rightarrow> buffer \<Rightarrow> buffer \<Rightarrow> error + buffer \<times> buffer"
  gcm_decrypt :: "buffer \<Rightarrow> buffer \<Rightarrow> buffer \<Rightarrow> buffer \<Rightarrow> error + buffer"
  shell :: "jsstring \<Rightarrow> jsstring option \<Rightarrow> 't world \<Rightarrow> (error + buffer) \<times> 't world"

text \<open>
  \<open>execSync(command, {input})\<close> runs the command; the record of spawned processes
  keeps the command line and the standard input of every call.
\<close>

definition execSync :: "'t host \<Rightarrow> jsstring \<Rightarrow> jsstring option \<Rightarrow> (buffer, 't) io" where
  "execSync h cmd inp w =
     (case shell h cmd inp w of (r, w') \<Rightarrow> (r, w'\<lparr>spawned := spawned w @ [(cmd, inp)]\<rparr>))"

section \<open>CredentialStore\<close>

record CredentialStore =
  service :: jsstring
  useFallback :: bool
  cacheDir :: jsstring
  cacheFile :: jsstring
  keyFile :: jsstring

definition new_CredentialStore :: "'t host \<Rightarrow> jsstring \<Rightarrow> bool option \<Rightarrow> CredentialStore" where
  "new_CredentialStore h svc fallback =
     (let dir = path_join h [homedir h, lit ''.cache'', svc] in
      \<lparr>service = svc,
       useFallback = (case fallback of None \<Rightarrow> False | Some b \<Rightarrow> b),
       cacheDir = dir,
       cacheFile = path_join h [dir, lit ''credentials.json''],
       keyFile = path_join h [dir, lit ''key.bin'']\<rparr>)"

subsection \<open>Native backends\<close>

definition saveMac_command :: "CredentialStore \<Rightarrow> jsstring \<Rightarrow> jsstring \<Rightarrow> jsstring" where
  \<open>saveMac_command s account password =
     lit ''security add-generic-password -a "'' @ account @ lit ''" -s "'' @ service s @
     lit ''" -w "'' @ password @ lit ''" -U''\<close>

definition saveMac :: "'t host \<Rightarrow> CredentialStore \<Rightarrow> jsstring \<Rightarrow> jsstring \<Rightarrow> (unit, 't) io" where
  "saveMac h s account password =
     bindE (execSync h (saveMac_command s account password) None) (\<lambda>_. retE ())"

definition getMac_command :: "CredentialStore \<Rightarrow> jsstring \<Rightarrow> jsstring" where
  \<open>getMac_command s account =
     lit ''security find-generic-password -a "'' @ account @ lit ''" -s "'' @ service s @
     lit ''" -w''\<close>

definition getMac :: "'t host \<Rightarrow> CredentialStore \<Rightarrow> jsstring \<Rightarrow> (jsstring option, 't) io" where
  "getMac h s account =
     catchE
       (bindE (execSync h (getMac_command s account) None)
          (\<lambda>out. retE (Some (trim (utf8_decode h out)))))
       (\<lambda>_. retE None)"

definition deleteMac_command :: "CredentialStore \<Rightarrow> jsstring \<Rightarrow> jsstring" where
  \<open>deleteMac_command s account =
     lit ''security delete-generic-password -a "'' @ account @ lit ''" -s "'' @ service s @
     lit ''"''\<close>

definition deleteMac :: "'t host \<Rightarrow> CredentialStore \<Rightarrow> jsstring \<Rightarrow> (unit, 't) io" where
  "deleteMac h s account =
     bindE (execSync h (deleteMac_command s account) None) (\<lambda>_. retE ())"

definition getFilePath :: "'t host \<Rightarrow> CredentialStore \<Rightarrow> jsstring \<Rightarrow> (jsstring, 't) io" where
  "getFilePath h s account =
     (let dir = path_join h
            [case APPDATA h of None \<Rightarrow> lit ''.'' | Some a \<Rightarrow> if a = [] then lit ''.'' else a,
             lit ''keyvault'']
      in bindE (unlessE (existsSync dir) (mkdirSync dir))
           (\<lambda>_. retE (path_join h [dir, service s @ lit ''-'' @ account @ lit ''.txt''])))"

definition saveWindows_script :: "jsstring \<Rightarrow> jsstring \<Rightarrow> jsstring" where
  "saveWindows_script password file =
     nl @ lit ''$secure = ConvertTo-SecureString '' @ sq @ password @ sq @
     lit '' -AsPlainText -Force'' @ nl @
     lit ''$secure | ConvertFrom-SecureString | Set-Content '' @ sq @ file @ sq @ nl"

definition pwsh_command :: "jsstring \<Rightarrow> jsstring" where
  \<open>pwsh_command script = lit ''pwsh -NoProfile -Command "'' @ replace_dquote script @ lit ''"''\<close>

definition saveWindows :: "'t host \<Rightarrow> CredentialStore \<Rightarrow> jsstring \<Rightarrow> jsstring \<Rightarrow> (unit, 't) io" where
  "saveWindows h s account password =
     bindE (getFilePath h s account) (\<lambda>file.
     bindE (execSync h (pwsh_command (saveWindows_script password file)) None)
       (\<lambda>_. retE ()))"

definition getWindows_script :: "jsstring \<Rightarrow> jsstring" where
  "getWindows_script file =
     nl @ lit ''$encrypted = Get-Content '' @ sq @ file @ sq @ nl @
     lit ''$secure = ConvertTo-SecureString $encrypted'' @ nl @
     lit ''[System.Runtime.InteropServices.Marshal]::PtrToStringAuto('' @ nl @
     lit ''  [System.Runtime.InteropServices.Marshal]::SecureStringToBSTR($secure)'' @ nl @
     lit '')'' @ nl"

definition getWindows :: "'t host \<Rightarrow> CredentialStore \<Rightarrow> jsstring \<Rightarrow> (jsstring option, 't) io" where
  "getWindows h s account =
     bindE (getFilePath h s account) (\<lambda>file w.
       if \<not> existsSync file w then retE None w
       else catchE
              (bindE (execSync h (pwsh_command (getWindows_script file)) None)
                 (\<lambda>out. retE (Some (trim (utf8_decode h out)))))
              (\<lambda>_. retE None) w)"

definition deleteWindows :: "'t host \<Rightarrow> CredentialStore \<Rightarrow> jsstring \<Rightarrow> (unit, 't) io" where
  "deleteWindows h s account =
     bindE (getFilePath h s account) (\<lambda>file w.
       if existsSync file w then unlinkSync file w else retE () w)"

definition hasSecretTool :: "'t host \<Rightarrow> (bool, 't) io" where
  "hasSecretTool h =
     catchE (bindE (execSync h (lit ''command -v secret-tool'') None) (\<lambda>_. retE True))
       (\<lambda>_. retE False)"

definition saveLinux_command :: "CredentialStore \<Rightarrow> jsstring \<Rightarrow> jsstring" where
  \<open>saveLinux_command s account =
     lit ''secret-tool store --label="'' @ service s @ lit ''" service "'' @ service s @
     lit ''" account "'' @ account @ lit ''"''\<close>

definition saveLinux :: "'t host \<Rightarrow> CredentialStore \<Rightarrow> jsstring \<Rightarrow> jsstring \<Rightarrow> (unit, 't) io" where
  "saveLinux h s account password =
     bindE (hasSecretTool h) (\<lambda>ok.
       if \<not> ok then throwE SecretToolMissing
       else bindE (execSync h (saveLinux_command s account) (Some password)) (\<lambda>_. retE ()))"

definition getLinux_command :: "CredentialStore \<Rightarrow> jsstring \<Rightarrow> jsstring" where
  \<open>getLinux_command s account =
     lit ''secret-tool lookup service "'' @ service s @ lit ''" account "'' @ account @ lit ''"''\<close>

definition getLinux :: "'t host \<Rightarrow> CredentialStore \<Rightarrow> jsstring \<Rightarrow> (jsstring option, 't) io" where
  "getLinux h s account =
     bindE (hasSecretTool h) (\<lambda>ok.
       if \<not> ok then throwE SecretToolMissing
       else catchE
              (bindE (execSync h (getLinux_command s account) None)
                 (\<lambda>out. retE (Some (trim (utf8_decode h out)))))
              (\<lambda>_. retE None))"

definition deleteLinux_command :: "CredentialStore \<Rightarrow> jsstring \<Rightarrow> jsstring" where
  \<open>deleteLinux_command s account =
     lit ''secret-tool clear service "'' @ service s @ lit ''" account "'' @ account @ lit ''"''\<close>

definition deleteLinux :: "'t host \<Rightarrow> CredentialStore \<Rightarrow> jsstring \<Rightarrow> (unit, 't) io" where
  "deleteLinux h s account =
     bindE (hasSecretTool h) (\<lambda>ok.
       if \<not> ok then throwE SecretToolMissing
       else bindE (execSync h (deleteLinux_command s account) None) (\<lambda>_. retE ()))"

definition saveNative :: "'t host \<Rightarrow> CredentialStore \<Rightarrow> jsstring \<Rightarrow> jsstring \<Rightarrow> (unit, 't) io" where
  "saveNative h s account password =
     (case platform h of
        Darwin \<Rightarrow> saveMac h s account password
      | Win32 \<Rightarrow> saveWindows h s account password
      | Linux \<Rightarrow> saveLinux h s account password
      | OtherPlatform \<Rightarrow> throwE UnsupportedPlatform)"

definition getNative :: "'t host \<Rightarrow> CredentialStore \<Rightarrow> jsstring \<Rightarrow> (jsstring option, 't) io" where
  "getNative h s account =
     (case platform h of
        Darwin \<Rightarrow> getMac h s account
      | Win32 \<Rightarrow> getWindows h s account
      | Linux \<Rightarrow> getLinux h s account
      | OtherPlatform \<Rightarrow> throwE UnsupportedPlatform)"

definition deleteNative :: "'t host \<Rightarrow> CredentialStore \<Rightarrow> jsstring \<Rightarrow> (unit, 't) io" where
  "deleteNative h s account =
     (case platform h of
        Darwin \<Rightarrow> deleteMac h s account
      | Win32 \<Rightarrow> deleteWindows h s account
      | Linux \<Rightarrow> deleteLinux h s account
      | OtherPlatform \<Rightarrow> throwE UnsupportedPlatform)"

subsection \<open>The encrypted cache\<close>

definition ensureCache :: "'t host \<Rightarrow> CredentialStore \<Rightarrow> (unit, 't) io" where
  "ensureCache h s =
     bindE (unlessE (existsSync (cacheDir s)) (mkdirSync (cacheDir s))) (\<lambda>_.
     bindE (unlessE (existsSync (keyFile s))
              (bindE (randomBytes 32) (\<lambda>key.
               bindE (writeFileSync (keyFile s) key) (\<lambda>_.
               catchE (chmodSync (keyFile s) mode_0o600)
                 (console_warn (lit ''Could not set permissions on key file: '')))))) (\<lambda>_.
     unlessE (existsSync (cacheFile s))
       (bindE (writeFileSync (cacheFile s) (utf8_encode h (JSON_stringify h 0 []))) (\<lambda>_.
        catchE (chmodSync (cacheFile s) mode_0o600)
          (console_warn (lit ''Could not set permissions on cache file: ''))))))"

definition readCache :: "'t host \<Rightarrow> CredentialStore \<Rightarrow> (jsobject, 't) io" where
  "readCache h s =
     bindE (ensureCache h s) (\<lambda>_.
     bindE (readFileSync (cacheFile s)) (\<lambda>bytes.
       case JSON_parse h (utf8_decode h bytes) of
         Inl e \<Rightarrow> throwE e
       | Inr obj \<Rightarrow> retE obj))"

definition writeCache :: "'t host \<Rightarrow> CredentialStore \<Rightarrow> jsobject \<Rightarrow> (unit, 't) io" where
  "writeCache h s obj =
     bindE (ensureCache h s) (\<lambda>_.
     writeFileSync (cacheFile s) (utf8_encode h (JSON_stringify h 2 obj)))"

definition encrypt :: "'t host \<Rightarrow> CredentialStore \<Rightarrow> jsstring \<Rightarrow> (jsstring, 't) io" where
  "encrypt h s text =
     bindE (readFileSync (keyFile s)) (\<lambda>key.
     bindE (randomBytes 12) (\<lambda>iv.
       case gcm_encrypt h key iv (utf8_encode h text) of
         Inl e \<Rightarrow> throwE e
       | Inr (enc, tag) \<Rightarrow> retE (base64_encode h (iv @ tag @ enc))))"

definition decrypt :: "'t host \<Rightarrow> CredentialStore \<Rightarrow> jsvalue \<Rightarrow> (jsstring, 't) io" where
  "decrypt h s data =
     bindE (readFileSync (keyFile s)) (\<lambda>key.
       case data of
         Str d \<Rightarrow>
           (let buf = base64_decode h d;
                iv = take 12 buf;
                tag = take (28 - 12) (drop 12 buf);
                enc = drop 28 buf
            in case gcm_decrypt h key iv tag enc of
                 Inl e \<Rightarrow> throwE e
               | Inr plain \<Rightarrow> retE (utf8_decode h plain))
       | _ \<Rightarrow> throwE TypeError)"

definition saveFallback :: "'t host \<Rightarrow> CredentialStore \<Rightarrow> jsstring \<Rightarrow> jsstring \<Rightarrow> (unit, 't) io" where
  "saveFallback h s account password =
     bindE (readCache h s) (\<lambda>cache.
     bindE (encrypt h s password) (\<lambda>blob.
     writeCache h s (prop_set cache account blob)))"

definition getFallback :: "'t host \<Rightarrow> CredentialStore \<Rightarrow> jsstring \<Rightarrow> (jsstring option, 't) io" where
  "getFallback h s account =
     bindE (readCache h s) (\<lambda>cache.
       if \<not> truthy (prop_get cache account) then retE None
       else catchE (bindE (decrypt h s (prop_get cache account)) (\<lambda>p. retE (Some p)))
              (\<lambda>_. retE None))"

definition deleteFallback :: "'t host \<Rightarrow> CredentialStore \<Rightarrow> jsstring \<Rightarrow> (unit, 't) io" where
  "deleteFallback h s account =
     bindE (readCache h s) (\<lambda>cache. writeCache h s (prop_delete cache account))"

subsection \<open>The public operations\<close>

definition save :: "'t host \<Rightarrow> CredentialStore \<Rightarrow> jsstring \<Rightarrow> jsstring \<Rightarrow> (unit, 't) io" where
  "save h s account password =
     catchE
       (if \<not> useFallback s then saveNative h s account password
        else saveFallback h s account password)
       (\<lambda>error.
          if \<not> useFallback s then
            bindE (console_warn (lit ''Native credential storage failed, using fallback: '') error)
              (\<lambda>_. saveFallback h s account password)
          else throwE error)"

definition get :: "'t host \<Rightarrow> CredentialStore \<Rightarrow> jsstring \<Rightarrow> (jsstring option, 't) io" where
  "get h s account =
     catchE
       (if \<not> useFallback s then getNative h s account
        else getFallback h s account)
       (\<lambda>error.
          if \<not> useFallback s then
            bindE (console_warn (lit ''Native credential retrieval failed, trying fallback: '') error)
              (\<lambda>_. getFallback h s account)
          else retE None)"

definition delete :: "'t host \<Rightarrow> CredentialStore \<Rightarrow> jsstring \<Rightarrow> (unit, 't) io" where
  "delete h s account =
     catchE
       (if \<not> useFallback s then deleteNative h s account
        else deleteFallback h s account)
       (\<lambda>error.
          if \<not> useFallback s then
            bindE (console_warn (lit ''Native credential deletion failed, trying fallback: '') error)
              (\<lambda>_. deleteFallback h s account)
          else throwE error)"

section \<open>What the program relies on\<close>


text \<open>The entry of an account in the mapping file, as a reader of the file finds it.\<close>

definition persisted :: "'t host \<Rightarrow> CredentialStore \<Rightarrow> 't world \<Rightarrow> jsstring \<Rightarrow> jsstring option" where
  "persisted h s w b =
     (case files w (cacheFile s) of
        None \<Rightarrow> None
      | Some bytes \<Rightarrow>
          (case JSON_parse h (utf8_decode h bytes) of
             Inl _ \<Rightarrow> None
           | Inr obj \<Rightarrow> map_of obj b))"

definition grows :: "'t world \<Rightarrow> 't world \<Rightarrow> bool" where
  "grows w w' \<longleftrightarrow> (\<forall>p b. files w p = Some b \<longrightarrow> files w' p = Some b) \<and> dirs w \<subseteq> dirs w'"

definition exists3 :: "CredentialStore \<Rightarrow> 't world \<Rightarrow> bool" where
  "exists3 s w \<longleftrightarrow>
     existsSync (cacheDir s) w \<and> existsSync (keyFile s) w \<and> existsSync (cacheFile s) w"

text \<open>
  No write is cut short: the schedule holds no \<open>Partial\<close> fault. And what a call that
  does not reach the final write can do to the mapping file: leave it as it is, or,
  where there was none, create it with the empty mapping.
\<close>

definition no_partial :: "'t world \<Rightarrow> bool" where
  "no_partial w \<longleftrightarrow> (\<forall>n. Partial n \<notin> set (faults w))"

definition cache_kept :: "'t host \<Rightarrow> CredentialStore \<Rightarrow> 't world \<Rightarrow> 't world \<Rightarrow> bool" where
  "cache_kept h s w w' \<longleftrightarrow>
     files w' (cacheFile s) = files w (cacheFile s) \<or>
     (files w (cacheFile s) = None \<and>
      files w' (cacheFile s) = Some (utf8_encode h (JSON_stringify h 0 [])))"

section \<open>A test host\<close>

text \<open>
  A small host on which the program runs inside the logic, in the way the test suite
  replaces \<open>child_process\<close>: text is written to files as two bytes per code unit, base64
  widens bytes, an object is serialised as length-prefixed strings (and parsing accepts
  only what serialising produces), the cipher adds one to every byte and its tag is a
  checksum of nonce and ciphertext followed by 15 bytes of the key.
\<close>

fun mock_join :: "jsstring \<Rightarrow> jsstring list \<Rightarrow> jsstring" where
  "mock_join sep [] = lit ''.''"
| "mock_join sep [x] = x"
| "mock_join sep (x # y # ys) = x @ sep @ mock_join sep (y # ys)"

definition mock_utf8_encode :: "jsstring \<Rightarrow> buffer" where
  "mock_utf8_encode s = concat (map (\<lambda>u. [ucast (drop_bit 8 u), ucast u]) s)"

fun mock_utf8_decode :: "buffer \<Rightarrow> jsstring" where
  "mock_utf8_decode (a # b # r) = word_cat a b # mock_utf8_decode r"
| "mock_utf8_decode _ = []"

definition mock_base64_encode :: "buffer \<Rightarrow> jsstring" where
  "mock_base64_encode bs = map ucast bs"

definition mock_base64_decode :: "jsstring \<Rightarrow> buffer" where
  "mock_base64_decode s = map ucast s"

definition frame :: "jsstring \<Rightarrow> jsstring" where
  "frame s = replicate (length s) 1 @ [0] @ s"

definition unframe :: "jsstring \<Rightarrow> jsstring \<times> jsstring" where
  "unframe xs =
     (let n = length (takeWhile (\<lambda>u. u = 1) xs)
      in (take n (drop (Suc n) xs), drop (Suc n + n) xs))"

fun unframes :: "nat \<Rightarrow> jsstring \<Rightarrow> jsobject" where
  "unframes 0 xs = []"
| "unframes (Suc n) xs =
     (case unframe xs of (k, r) \<Rightarrow> case unframe r of (v, r') \<Rightarrow> (k, v) # unframes n r')"

definition mock_stringify :: "nat \<Rightarrow> jsobject \<Rightarrow> jsstring" where
  "mock_stringify indent obj =
     replicate (length obj) 1 @ [0] @ concat (map (\<lambda>(k, v). frame k @ frame v) obj)"

definition mock_parse :: "jsstring \<Rightarrow> error + jsobject" where
  "mock_parse xs =
     (let n = length (takeWhile (\<lambda>u. u = 1) xs);
          obj = unframes n (drop (Suc n) xs)
      in if mock_stringify 0 obj = xs then Inr obj else Inl SyntaxError)"

definition mock_tag :: "buffer \<Rightarrow> buffer \<Rightarrow> buffer \<Rightarrow> buffer" where
  "mock_tag key iv enc = sum_list (iv @ enc) # take 15 key"

definition mock_gcm_encrypt :: "buffer \<Rightarrow> buffer \<Rightarrow> buffer \<Rightarrow> error + buffer \<times> buffer" where
  "mock_gcm_encrypt key iv plain =
     (if length key \<noteq> 32 then Inl CryptoError
      else let enc = map (\<lambda>b. b + 1) plain in Inr (enc, mock_tag key iv enc))"

definition mock_gcm_decrypt :: "buffer \<Rightarrow> buffer \<Rightarrow> buffer \<Rightarrow> buffer \<Rightarrow> error + buffer" where
  "mock_gcm_decrypt key iv tag enc =
     (if length key \<noteq> 32 \<or> tag \<noteq> mock_tag key iv enc then Inl CryptoError
      else Inr (map (\<lambda>b. b - 1) enc))"

definition mock_host ::
  "platform \<Rightarrow> (jsstring \<Rightarrow> jsstring option \<Rightarrow> 't world \<Rightarrow> (error + buffer) \<times> 't world) \<Rightarrow> 't host" where
  "mock_host p sh =
     \<lparr>platform = p,
      APPDATA = (if p = Win32 then Some (lit ''C:'' @ bsl @ lit ''AppData'') else None),
      homedir = (if p = Win32 then lit ''C:'' @ bsl @ lit ''Users'' @ bsl @ lit ''u''
                 else lit ''/home/u''),
      path_join = mock_join (if p = Win32 then bsl else lit ''/''),
      utf8_encode = mock_utf8_encode, utf8_decode = mock_utf8_decode,
      base64_encode = mock_base64_encode, base64_decode = mock_base64_decode,
      JSON_stringify = mock_stringify, JSON_parse = mock_parse,
      gcm_encrypt = mock_gcm_encrypt, gcm_decrypt = mock_gcm_decrypt,
      shell = sh\<rparr>"

text \<open>
  Three shells: one where every command fails, one where every command succeeds with
  the same output, and the keychain of one service and account, which stores the
  password of an \<open>add-generic-password\<close> command, taking the text between the quotes
  after \<open>-w\<close> as it is, and prints it with a newline on \<open>find-generic-password\<close>.
\<close>

definition shell_fails ::
  "jsstring \<Rightarrow> jsstring option \<Rightarrow> 't world \<Rightarrow> (error + buffer) \<times> 't world" where
  "shell_fails cmd inp w = (Inl ExecError, w)"

definition shell_returns ::
  "buffer \<Rightarrow> jsstring \<Rightarrow> jsstring option \<Rightarrow> 't world \<Rightarrow> (error + buffer) \<times> 't world" where
  "shell_returns out cmd inp w = (Inr out, w)"


definition empty_world :: "'t \<Rightarrow> 't world" where
  "empty_world x =
     \<lparr>files = Map.empty, modes = Map.empty, dirs = {}, entropy = (\<lambda>n. of_nat n), drawn = 0,
      faults = [], warnings = [], spawned = [], ext = x\<rparr>"

text \<open>
  Hosts: Linux without \<open>secret-tool\<close>; macOS with the keychain of service \<open>svc\<close> and
  account \<open>a\<close>; and, for each platform, a host whose shell accepts every command and
  prints nothing.
\<close>

definition linux_host :: "unit host" where
  "linux_host = mock_host Linux shell_fails"


definition recording_host :: "platform \<Rightarrow> unit host" where
  "recording_host p = mock_host p (shell_returns [])"

text \<open>
  Stores for the service \<open>svc\<close>: on Linux with fallback forced and without, on macOS,
  and on a recording host.
\<close>

definition fb_store :: CredentialStore where
  "fb_store = new_CredentialStore linux_host (lit ''svc'') (Some True)"

definition linux_store :: CredentialStore where
  "linux_store = new_CredentialStore linux_host (lit ''svc'') None"


definition recording_store :: "platform \<Rightarrow> CredentialStore" where
  "recording_store p = new_CredentialStore (recording_host p) (lit ''svc'') None"


text \<open>
  A world whose mapping holds, for account \<open>a\<close>, a blob with a tag that does not belong
  to its nonce and ciphertext.
\<close>

definition tampered_world :: "unit world" where
  "tampered_world =
     (empty_world ())\<lparr>files := [cacheFile fb_store \<mapsto>
                                   mock_utf8_encode (mock_stringify 2
                                     [(lit ''a'', mock_base64_encode
                                        (replicate 12 7 @ replicate 16 0 @ [113, 120]))]),
                                 keyFile fb_store \<mapsto> replicate 32 0],
                       dirs := {cacheDir fb_store}\<rparr>"

text \<open>A world whose mapping holds one entry, for account \<open>b\<close>.\<close>

definition stored_world :: "unit world" where
  "stored_world =
     (empty_world ())\<lparr>files := [cacheFile fb_store \<mapsto>
                                   mock_utf8_encode (mock_stringify 2 [(lit ''b'', lit ''blob'')]),
                                 keyFile fb_store \<mapsto> replicate 32 0],
                       dirs := {cacheDir fb_store}\<rparr>"

text \<open>A world whose mapping file does not hold an object.\<close>

definition corrupt_world :: "unit world" where
  "corrupt_world =
     (empty_world ())\<lparr>files := [cacheFile fb_store \<mapsto> mock_utf8_encode (lit ''oops''),
                                 keyFile fb_store \<mapsto> replicate 32 0],
                       dirs := {cacheDir fb_store}\<rparr>"

section \<open>Sequencing and the file system\<close>

lemma bindE_InrE:
  assumes "bindE m f w = (Inr y, w'')"
  obtains x w' where "m w = (Inr x, w')" and "f x w' = (Inr y, w'')"
  using assms by (auto simp: bindE_def split: prod.splits sum.splits)

lemma bindE_retE: "bindE (retE x) f = f x"
  by (rule ext) (simp add: bindE_def retE_def)

lemma catchE_throwE: "catchE m throwE = m"
  by (rule ext) (auto simp: catchE_def throwE_def split: prod.splits sum.splits)

lemma grows_refl: "grows w w"
  by (simp add: grows_def)

lemma grows_trans: "grows w w' \<Longrightarrow> grows w' w'' \<Longrightarrow> grows w w''"
  by (auto simp: grows_def)

lemma grows_exists: "grows w w' \<Longrightarrow> existsSync p w \<Longrightarrow> existsSync p w'"
  by (auto simp: grows_def existsSync_def)

lemma mkdirSync_Inr:
  "mkdirSync p w = (Inr u, w') \<Longrightarrow> files w' = files w \<and> dirs w' = insert p (dirs w)"
  by (auto simp: mkdirSync_def next_fault_def split: list.splits fault.splits)

lemma writeFileSync_Inr:
  "writeFileSync p d w = (Inr u, w') \<Longrightarrow> files w' = (files w)(p \<mapsto> d) \<and> dirs w' = dirs w"
  by (auto simp: writeFileSync_def next_fault_def split: list.splits fault.splits)

lemma readFileSync_Inr:
  "readFileSync p w = (Inr b, w') \<Longrightarrow>
     files w p = Some b \<and> files w' = files w \<and> dirs w' = dirs w \<and>
     entropy w' = entropy w \<and> drawn w' = drawn w"
  by (auto simp: readFileSync_def next_fault_def split: list.splits fault.splits option.splits)


lemma randomBytes_any:
  "randomBytes n w = (r, w') \<Longrightarrow>
     r = Inr (map (entropy w) [drawn w ..< drawn w + n]) \<and> files w' = files w \<and>
     dirs w' = dirs w \<and> drawn w' = drawn w + n"
  by (auto simp: randomBytes_def)

lemma chmod_warn:
  "catchE (chmodSync p m) (console_warn msg) w = (r, w') \<Longrightarrow>
     r = Inr () \<and> files w' = files w \<and> dirs w' = dirs w"
  by (auto simp: catchE_def chmodSync_def console_warn_def next_fault_def
      split: prod.splits sum.splits list.splits fault.splits if_splits)

section \<open>The cache files\<close>


lemma stage_dir:
  assumes "unlessE (existsSync p) (mkdirSync p) w = (Inr u, w')"
  shows "grows w w' \<and> existsSync p w'"
  using assms
  by (auto simp: unlessE_def grows_def existsSync_def split: if_splits dest!: mkdirSync_Inr)

lemma stage_file:
  assumes "unlessE (existsSync p)
             (bindE mk (\<lambda>d. bindE (writeFileSync p d)
                (\<lambda>_. catchE (chmodSync p m) (console_warn msg)))) w
           = (Inr u, w')"
    and mk: "\<And>w r w'. mk w = (r, w') \<Longrightarrow> files w' = files w \<and> dirs w' = dirs w"
  shows "grows w w' \<and> existsSync p w'"
proof (cases "existsSync p w")
  case True
  with assms(1) show ?thesis by (simp add: unlessE_def grows_refl)
next
  case False
  with assms(1) obtain d w1 w2 where
    a: "mk w = (Inr d, w1)" and b: "writeFileSync p d w1 = (Inr (), w2)"
    and c: "catchE (chmodSync p m) (console_warn msg) w2 = (Inr u, w')"
    by (auto simp: unlessE_def elim!: bindE_InrE)
  from mk[OF a] writeFileSync_Inr[OF b] chmod_warn[OF c] False
  show ?thesis by (auto simp: grows_def existsSync_def)
qed

lemma ensureCache_Inr:
  assumes "ensureCache h s w = (Inr u, w')"
  shows "grows w w' \<and> exists3 s w'"
proof -
  from assms obtain w1 w2 where
    a: "unlessE (existsSync (cacheDir s)) (mkdirSync (cacheDir s)) w = (Inr (), w1)"
    and b: "unlessE (existsSync (keyFile s))
              (bindE (randomBytes 32) (\<lambda>key.
               bindE (writeFileSync (keyFile s) key) (\<lambda>_.
               catchE (chmodSync (keyFile s) mode_0o600)
                 (console_warn (lit ''Could not set permissions on key file: ''))))) w1
            = (Inr (), w2)"
    and c: "unlessE (existsSync (cacheFile s))
              (bindE (writeFileSync (cacheFile s) (utf8_encode h (JSON_stringify h 0 []))) (\<lambda>_.
               catchE (chmodSync (cacheFile s) mode_0o600)
                 (console_warn (lit ''Could not set permissions on cache file: '')))) w2
            = (Inr u, w')"
    unfolding ensureCache_def by (auto elim!: bindE_InrE)
  have c': "unlessE (existsSync (cacheFile s))
              (bindE (retE (utf8_encode h (JSON_stringify h 0 []))) (\<lambda>d.
               bindE (writeFileSync (cacheFile s) d) (\<lambda>_.
               catchE (chmodSync (cacheFile s) mode_0o600)
                 (console_warn (lit ''Could not set permissions on cache file: ''))))) w2
            = (Inr u, w')"
    using c by (simp add: bindE_retE)
  note A = stage_dir[OF a]
  have B: "grows w1 w2 \<and> existsSync (keyFile s) w2"
    by (rule stage_file[OF b]) (auto dest: randomBytes_any)
  have C: "grows w2 w' \<and> existsSync (cacheFile s) w'"
    by (rule stage_file[OF c']) (auto simp: retE_def)
  from A B C show ?thesis
    by (auto simp: exists3_def intro: grows_trans grows_exists)
qed

lemma readCache_Inr:
  assumes "readCache h s w = (Inr cache, w')"
  shows "\<exists>bytes. files w' (cacheFile s) = Some bytes \<and>
           JSON_parse h (utf8_decode h bytes) = Inr cache \<and> grows w w' \<and> exists3 s w'"
proof -
  from assms obtain w0 bytes w1 where
    a: "ensureCache h s w = (Inr (), w0)" and b: "readFileSync (cacheFile s) w0 = (Inr bytes, w1)"
    and c: "(case JSON_parse h (utf8_decode h bytes) of Inl e \<Rightarrow> throwE e | Inr obj \<Rightarrow> retE obj) w1
            = (Inr cache, w')"
    unfolding readCache_def by (auto elim!: bindE_InrE)
  from c have p: "JSON_parse h (utf8_decode h bytes) = Inr cache" and w: "w' = w1"
    by (auto simp: throwE_def retE_def split: sum.splits)
  from ensureCache_Inr[OF a] readFileSync_Inr[OF b] p w show ?thesis
    by (simp add: exists3_def existsSync_def grows_def)
qed


lemma writeCache_Inr:
  assumes "writeCache h s obj w = (Inr u, w')"
  shows "files w' (cacheFile s) = Some (utf8_encode h (JSON_stringify h 2 obj)) \<and>
         (\<forall>p b. p \<noteq> cacheFile s \<longrightarrow> files w p = Some b \<longrightarrow> files w' p = Some b) \<and>
         exists3 s w'"
proof -
  from assms obtain w0 where
    a: "ensureCache h s w = (Inr (), w0)"
    and b: "writeFileSync (cacheFile s) (utf8_encode h (JSON_stringify h 2 obj)) w0 = (Inr u, w')"
    unfolding writeCache_def by (auto elim!: bindE_InrE)
  from ensureCache_Inr[OF a] writeFileSync_Inr[OF b] show ?thesis
    by (auto simp: grows_def exists3_def existsSync_def)
qed




section \<open>The test host satisfies the laws\<close>











lemma fb_store_paths: "keyFile fb_store \<noteq> cacheFile fb_store"
  by code_simp

lemma fb_store_forced: "useFallback fb_store"
  by code_simp



section \<open>Spawned processes and decryption\<close>

lemma execSync_spawned:
  "spawned (snd (execSync h cmd inp w)) = spawned w @ [(cmd, inp)]"
  by (simp add: execSync_def split: prod.splits)

lemma saveMac_spawned:
  "spawned (snd (saveMac h s account password w))
   = spawned w @ [(saveMac_command s account password, None)]"
  using execSync_spawned[of h "saveMac_command s account password" None w]
  by (auto simp: saveMac_def bindE_def retE_def split: prod.splits sum.splits)

lemma saveMac_command_contains: "sublist password (saveMac_command s account password)"
  unfolding saveMac_command_def
  by (metis append.assoc sublist_appendI)

lemma decrypt_nonstring:
  "\<forall>d. v \<noteq> Str d \<Longrightarrow> isl (fst (decrypt h s v w))"
  by (cases v) (auto simp: decrypt_def bindE_def throwE_def split: prod.splits sum.splits)

section \<open>The mapping as a reader finds it\<close>







section \<open>Calls that fail\<close>

lemma bindE_cases:
  assumes "bindE m f w = (r, w'')"
  obtains (fail) e where "m w = (Inl e, w'')" and "r = Inl e"
  | (ok) x w' where "m w = (Inr x, w')" and "f x w' = (r, w'')"
  using assms by (auto simp: bindE_def split: prod.splits sum.splits)

lemma cache_kept_refl: "cache_kept h s w w"
  by (simp add: cache_kept_def)

lemma cache_kept_trans: "cache_kept h s w w1 \<Longrightarrow> cache_kept h s w1 w2 \<Longrightarrow> cache_kept h s w w2"
  by (auto simp: cache_kept_def)

lemma cache_kept_same: "files w' = files w \<Longrightarrow> cache_kept h s w w'"
  by (simp add: cache_kept_def)

lemma mkdirSync_np:
  "no_partial w \<Longrightarrow> mkdirSync p w = (r, w') \<Longrightarrow> no_partial w' \<and> files w' = files w"
  by (auto simp: mkdirSync_def next_fault_def no_partial_def split: list.splits fault.splits)

lemma writeFileSync_np:
  "no_partial w \<Longrightarrow> writeFileSync p d w = (r, w') \<Longrightarrow>
     no_partial w' \<and>
     (r = Inr () \<and> files w' = (files w)(p \<mapsto> d) \<or> r = Inl (FsError p) \<and> files w' = files w)"
  by (auto simp: writeFileSync_def next_fault_def no_partial_def split: list.splits fault.splits)

lemma readFileSync_np:
  "no_partial w \<Longrightarrow> readFileSync p w = (r, w') \<Longrightarrow> no_partial w' \<and> files w' = files w"
  by (auto simp: readFileSync_def next_fault_def no_partial_def
      split: list.splits fault.splits option.splits)

lemma chmod_warn_np:
  "no_partial w \<Longrightarrow> catchE (chmodSync p m) (console_warn msg) w = (r, w') \<Longrightarrow>
     no_partial w' \<and> files w' = files w"
  by (auto simp: catchE_def chmodSync_def console_warn_def next_fault_def no_partial_def
      split: prod.splits sum.splits list.splits fault.splits if_splits)

lemma randomBytes_np:
  "no_partial w \<Longrightarrow> randomBytes n w = (r, w') \<Longrightarrow> no_partial w' \<and> files w' = files w"
  by (auto simp: randomBytes_def no_partial_def)

lemma stage_file_np:
  assumes st: "unlessE (existsSync p)
             (bindE mk (\<lambda>d. bindE (writeFileSync p d)
                (\<lambda>_. catchE (chmodSync p m) (console_warn msg)))) w
           = (r, w')"
    and np: "no_partial w"
    and mk: "\<And>w r w'. no_partial w \<Longrightarrow> mk w = (r, w') \<Longrightarrow> no_partial w' \<and> files w' = files w"
  shows "no_partial w' \<and>
         (files w' = files w \<or>
          (files w p = None \<and> (\<exists>d w1. mk w = (Inr d, w1) \<and> files w' = (files w)(p \<mapsto> d))))"
proof (cases "existsSync p w")
  case True
  with st np show ?thesis by (simp add: unlessE_def)
next
  case False
  then have none: "files w p = None" by (simp add: existsSync_def)
  from st False have b: "bindE mk (\<lambda>d. bindE (writeFileSync p d)
                (\<lambda>_. catchE (chmodSync p m) (console_warn msg))) w = (r, w')"
    by (simp add: unlessE_def)
  from b show ?thesis
  proof (cases rule: bindE_cases)
    case (fail e)
    with mk[OF np fail(1)] show ?thesis by simp
  next
    case (ok d w1)
    note m1 = mk[OF np ok(1)]
    from ok(2) show ?thesis
    proof (cases rule: bindE_cases)
      case (fail e)
      from writeFileSync_np[OF _ fail(1)] m1 show ?thesis by auto
    next
      case (ok u w2)
      from writeFileSync_np[OF _ ok(1)] m1 have np2: "no_partial w2"
        and f2: "files w2 = (files w)(p \<mapsto> d)" by auto
      from chmod_warn_np[OF np2 ok(2)] f2 none \<open>mk w = (Inr d, w1)\<close> show ?thesis by auto
    qed
  qed
qed

lemma ensureCache_np:
  assumes ec: "ensureCache h s w = (r, w')" and np: "no_partial w"
    and paths: "keyFile s \<noteq> cacheFile s"
  shows "no_partial w' \<and> cache_kept h s w w'"
proof -
  let ?key = "unlessE (existsSync (keyFile s))
              (bindE (randomBytes 32) (\<lambda>key.
               bindE (writeFileSync (keyFile s) key) (\<lambda>_.
               catchE (chmodSync (keyFile s) mode_0o600)
                 (console_warn (lit ''Could not set permissions on key file: '')))))"
  let ?cache = "unlessE (existsSync (cacheFile s))
              (bindE (writeFileSync (cacheFile s) (utf8_encode h (JSON_stringify h 0 []))) (\<lambda>_.
               catchE (chmodSync (cacheFile s) mode_0o600)
                 (console_warn (lit ''Could not set permissions on cache file: ''))))"
  let ?cache' = "unlessE (existsSync (cacheFile s))
              (bindE (retE (utf8_encode h (JSON_stringify h 0 []))) (\<lambda>d.
               bindE (writeFileSync (cacheFile s) d) (\<lambda>_.
               catchE (chmodSync (cacheFile s) mode_0o600)
                 (console_warn (lit ''Could not set permissions on cache file: '')))))"
  have dir: "no_partial w1 \<and> files w1 = files w"
    if "unlessE (existsSync (cacheDir s)) (mkdirSync (cacheDir s)) w = (r1, w1)" for r1 w1
    using that np by (auto simp: unlessE_def split: if_splits dest: mkdirSync_np)
  have key: "no_partial w2 \<and> files w2 (cacheFile s) = files w1 (cacheFile s)"
    if "?key w1 = (r2, w2)" and "no_partial w1" for r2 w1 w2
  proof -
    have "no_partial w2 \<and>
         (files w2 = files w1 \<or>
          (files w1 (keyFile s) = None \<and>
           (\<exists>d w3. randomBytes 32 w1 = (Inr d, w3) \<and> files w2 = (files w1)(keyFile s \<mapsto> d))))"
      by (rule stage_file_np[OF that]) (auto dest: randomBytes_np)
    with paths show ?thesis by auto
  qed
  have cache: "no_partial w3 \<and> cache_kept h s w2 w3"
    if "?cache w2 = (r3, w3)" and "no_partial w2" for r3 w2 w3
  proof -
    from that(1) have "?cache' w2 = (r3, w3)" by (simp add: bindE_retE)
    then have "no_partial w3 \<and>
         (files w3 = files w2 \<or>
          (files w2 (cacheFile s) = None \<and>
           (\<exists>d w4. retE (utf8_encode h (JSON_stringify h 0 [])) w2 = (Inr d, w4) \<and>
              files w3 = (files w2)(cacheFile s \<mapsto> d))))"
      by (rule stage_file_np[OF _ that(2)]) (auto simp: retE_def)
    then show ?thesis by (auto simp: cache_kept_def retE_def)
  qed
  from ec have "bindE (unlessE (existsSync (cacheDir s)) (mkdirSync (cacheDir s)))
                  (\<lambda>_. bindE ?key (\<lambda>_. ?cache)) w = (r, w')"
    by (simp add: ensureCache_def)
  then show ?thesis
  proof (cases rule: bindE_cases)
    case (fail e)
    from dir[OF fail(1)] show ?thesis by (simp add: cache_kept_def)
  next
    case (ok u w1)
    note d1 = dir[OF ok(1)]
    from ok(2) show ?thesis
    proof (cases rule: bindE_cases)
      case (fail e)
      from key[OF fail(1)] d1 show ?thesis by (simp add: cache_kept_def)
    next
      case (ok u2 w2)
      from key[OF ok(1)] d1 have k: "no_partial w2" "files w2 (cacheFile s) = files w (cacheFile s)"
        by auto
      from cache[OF ok(2) k(1)] k(2) show ?thesis by (auto simp: cache_kept_def)
    qed
  qed
qed

lemma readCache_np:
  assumes rc: "readCache h s w = (r, w')" and np: "no_partial w"
    and paths: "keyFile s \<noteq> cacheFile s"
  shows "no_partial w' \<and> cache_kept h s w w'"
  using rc unfolding readCache_def
proof (cases rule: bindE_cases)
  case (fail e)
  from ensureCache_np[OF fail(1) np paths] show ?thesis .
next
  case (ok u w0)
  note e = ensureCache_np[OF ok(1) np paths]
  from ok(2) show ?thesis
  proof (cases rule: bindE_cases)
    case (fail e')
    from readFileSync_np[OF _ fail(1)] e show ?thesis by (auto simp: cache_kept_def)
  next
    case (ok bytes w1)
    from ok(2) have "w' = w1"
      by (auto simp: throwE_def retE_def split: sum.splits)
    with readFileSync_np[OF _ ok(1)] e show ?thesis by (auto simp: cache_kept_def)
  qed
qed

lemma encrypt_np:
  assumes en: "encrypt h s txt w = (r, w')" and np: "no_partial w"
  shows "no_partial w' \<and> files w' = files w"
  using en unfolding encrypt_def
proof (cases rule: bindE_cases)
  case (fail e)
  from readFileSync_np[OF np fail(1)] show ?thesis .
next
  case (ok key w1)
  note a = readFileSync_np[OF np ok(1)]
  from ok(2) show ?thesis
  proof (cases rule: bindE_cases)
    case (fail e)
    from randomBytes_np[OF _ fail(1)] a show ?thesis by auto
  next
    case (ok iv w2)
    from ok(2) have "w' = w2"
      by (auto simp: throwE_def retE_def split: sum.splits prod.splits)
    with randomBytes_np[OF _ ok(1)] a show ?thesis by auto
  qed
qed

lemma writeCache_np:
  assumes wc: "writeCache h s obj w = (r, w')" and np: "no_partial w"
    and paths: "keyFile s \<noteq> cacheFile s"
  shows "r = Inr () \<and> files w' (cacheFile s) = Some (utf8_encode h (JSON_stringify h 2 obj)) \<or>
         r \<noteq> Inr () \<and> cache_kept h s w w'"
  using wc unfolding writeCache_def
proof (cases rule: bindE_cases)
  case (fail e)
  from ensureCache_np[OF fail(1) np paths] fail(2) show ?thesis by simp
next
  case (ok u w0)
  from ensureCache_np[OF ok(1) np paths] writeFileSync_np[OF _ ok(2)] show ?thesis
    by (auto simp: cache_kept_def)
qed

lemma saveFallback_fails_kept:
  assumes np: "no_partial w" and paths: "keyFile s \<noteq> cacheFile s"
    and put: "saveFallback h s account secret w = (r, w')" and fails: "r \<noteq> Inr ()"
  shows "cache_kept h s w w'"
  using put unfolding saveFallback_def
proof (cases rule: bindE_cases)
  case (fail e)
  from readCache_np[OF fail(1) np paths] show ?thesis by simp
next
  case (ok cache w1)
  note a = readCache_np[OF ok(1) np paths]
  from ok(2) show ?thesis
  proof (cases rule: bindE_cases)
    case (fail e)
    from encrypt_np[OF fail(1)] a show ?thesis
      by (auto simp: cache_kept_def)
  next
    case (ok blob w2)
    from encrypt_np[OF ok(1)] a have np2: "no_partial w2" and k2: "cache_kept h s w w2"
      by (auto simp: cache_kept_def)
    from writeCache_np[OF ok(2) np2 paths] fails have "cache_kept h s w2 w'"
      by auto
    with k2 show ?thesis by (rule cache_kept_trans)
  qed
qed



section \<open>Trimming\<close>



lemma last_dropWhile: "dropWhile P xs \<noteq> [] \<Longrightarrow> last (dropWhile P xs) = last xs"
  by (induction xs) (auto split: if_splits)

lemma dropWhile_id: "xs = [] \<or> \<not> P (hd xs) \<Longrightarrow> dropWhile P xs = xs"
  by (cases xs) auto

lemma trim_ends: "trim s = [] \<or> (\<not> is_ws (hd (trim s)) \<and> \<not> is_ws (last (trim s)))"
proof (cases "trim s = []")
  case True
  then show ?thesis by simp
next
  case False
  define a where "a = dropWhile is_ws s"
  define b where "b = dropWhile is_ws (rev a)"
  have t: "trim s = rev b" by (simp add: trim_def a_def b_def)
  with False have bne: "b \<noteq> []" by simp
  then have ane: "a \<noteq> []" by (auto simp: b_def)
  have "\<not> is_ws (hd b)" using bne unfolding b_def by (rule hd_dropWhile)
  moreover have "last b = last (rev a)" using bne unfolding b_def by (rule last_dropWhile)
  moreover have "\<not> is_ws (hd a)" using ane unfolding a_def by (rule hd_dropWhile)
  ultimately show ?thesis
    using bne ane by (simp add: t hd_rev last_rev)
qed

lemma trim_idem: "trim (trim s) = trim s"
proof -
  from trim_ends[of s] have 1: "dropWhile is_ws (trim s) = trim s"
    by (intro dropWhile_id) auto
  from trim_ends[of s] have 2: "dropWhile is_ws (rev (trim s)) = rev (trim s)"
    by (intro dropWhile_id) (auto simp: hd_rev)
  show ?thesis
    by (subst (1) trim_def) (simp add: 1 2)
qed

lemma getMac_trimmed:
  "getMac h s account w = (Inr (Some r), w') \<Longrightarrow> trim r = r"
  by (auto simp: getMac_def catchE_def bindE_def retE_def trim_idem split: prod.splits sum.splits)

lemma getMac_no_raise: "fst (getMac h s account w) \<noteq> Inl e"
  by (auto simp: getMac_def catchE_def bindE_def retE_def split: prod.splits sum.splits)

lemma darwin_get_trimmed:
  assumes "platform h = Darwin" and "\<not> useFallback s" and "get h s account w = (Inr (Some r), w')"
  shows "trim r = r"
proof -
  obtain x w1 where g: "getMac h s account w = (x, w1)" by (cases "getMac h s account w")
  with getMac_no_raise[of h s account w] obtain y where x: "x = Inr y" by (cases x) auto
  with assms g have "getMac h s account w = (Inr (Some r), w')"
    by (simp add: get_def getNative_def catchE_def)
  then show ?thesis by (rule getMac_trimmed)
qed

lemma untrimmed: "trim (lit '' x'') \<noteq> lit '' x''"
  by code_simp

lemma darwin_get_never_untrimmed:
  "platform h = Darwin \<Longrightarrow> \<not> useFallback s \<Longrightarrow> fst (get h s account w) \<noteq> Inr (Some (lit '' x''))"
  using darwin_get_trimmed[of h s account w "lit '' x''" "snd (get h s account w)"] untrimmed
  by (auto simp: prod_eq_iff)

lemma get_raises_what_fallback_raises:
  assumes "\<not> useFallback s" and "getNative h s account w = (Inl e, w1)"
    and "getFallback h s account
           (snd (console_warn (lit ''Native credential retrieval failed, trying fallback: '') e w1))
         = (Inl e', w2)"
  shows "get h s account w = (Inl e', w2)"
  using assms by (simp add: get_def catchE_def bindE_def console_warn_def)

section \<open>The layout of a blob\<close>



lemma saveFallback_stores:
  assumes "saveFallback h s account secret w = (Inr (), w')"
  shows "\<exists>cache w1 blob w2.
           readCache h s w = (Inr cache, w1) \<and> encrypt h s secret w1 = (Inr blob, w2) \<and>
           files w' (cacheFile s)
             = Some (utf8_encode h (JSON_stringify h 2 (prop_set cache account blob)))"
proof -
  from assms obtain cache w1 blob w2 where
    a: "readCache h s w = (Inr cache, w1)" and b: "encrypt h s secret w1 = (Inr blob, w2)"
    and c: "writeCache h s (prop_set cache account blob) w2 = (Inr (), w')"
    unfolding saveFallback_def by (auto elim!: bindE_InrE)
  from a b writeCache_Inr[OF c] show ?thesis by blast
qed

section \<open>The claims\<close>




text \<open>
  C2. The claim: \<open>save\<close> hands the secret to the platform tool on standard input only,
  never in the command line, on macOS, Windows and Linux. On Linux it does. On macOS and
  on Windows the secret is part of the command line and nothing is written to standard
  input: \<open>save("alice", "hunter2")\<close> on the service \<open>svc\<close> spawns exactly the processes
  below.
\<close>

theorem C2_secret_on_command_line:
  \<open>spawned (snd (save (recording_host Darwin) (recording_store Darwin) (lit ''alice'') (lit ''hunter2'')
                   (empty_world ())))
   = [(lit ''security add-generic-password -a "alice" -s "svc" -w "hunter2" -U'', None)] \<and>
   spawned (snd (save (recording_host Win32) (recording_store Win32) (lit ''alice'') (lit ''hunter2'')
                   (empty_world ())))
   = [(lit ''pwsh -NoProfile -Command "'' @ nl @
       lit ''$secure = ConvertTo-SecureString '' @ sq @ lit ''hunter2'' @ sq @
       lit '' -AsPlainText -Force'' @ nl @
       lit ''$secure | ConvertFrom-SecureString | Set-Content '' @ sq @
       lit ''C:'' @ bsl @ lit ''AppData'' @ bsl @ lit ''keyvault'' @ bsl @
       lit ''svc-alice.txt'' @ sq @ nl @ lit ''"'', None)] \<and>
   spawned (snd (save (recording_host Linux) (recording_store Linux) (lit ''alice'') (lit ''hunter2'')
                   (empty_world ())))
   = [(lit ''command -v secret-tool'', None),
      (lit ''secret-tool store --label="svc" service "svc" account "alice"'',
       Some (lit ''hunter2''))]\<close>
  by code_simp

text \<open>
  C3. The claim: \<open>get\<close> never raises. On Linux without \<open>secret-tool\<close> the native
  attempt raises, \<open>get\<close> turns to the cache, and a mapping file that does not parse makes
  \<open>get\<close> raise the parser's error to the caller.
\<close>

theorem C3_get_raises:
  "fst (get linux_host linux_store (lit ''a'') corrupt_world) = Inl SyntaxError \<and>
   fst (getNative linux_host linux_store (lit ''a'') corrupt_world) = Inl SecretToolMissing"
  by code_simp

text \<open>
  C4 (as amended). On a store with fallback forced, \<open>save\<close> and \<open>delete\<close> are the cache
  store's operations, results and errors unchanged; \<open>get\<close> is the cache store's \<open>get\<close>
  except that an error raised there becomes the not-found value.
\<close>

theorem C4_forced_fallback:
  assumes "useFallback s"
  shows "save h s account password w = saveFallback h s account password w \<and>
         delete h s account w = deleteFallback h s account w \<and>
         get h s account w =
           (case getFallback h s account w of
              (Inl e, w') \<Rightarrow> (Inr None, w')
            | (Inr r, w') \<Rightarrow> (Inr r, w'))"
  using assms
  by (simp add: save_def delete_def get_def catchE_throwE)
    (auto simp: catchE_def retE_def split: prod.splits sum.splits)

theorem C4_forced_fallback_witness:
  "fst (save linux_host fb_store (lit ''a'') (lit ''pw'') corrupt_world) = Inl SyntaxError \<and>
   fst (delete linux_host fb_store (lit ''a'') corrupt_world) = Inl SyntaxError \<and>
   fst (get linux_host fb_store (lit ''a'') corrupt_world) = Inr None"
proof -
  have a: "fst (saveFallback linux_host fb_store (lit ''a'') (lit ''pw'') corrupt_world) = Inl SyntaxError"
    by code_simp
  have b: "fst (deleteFallback linux_host fb_store (lit ''a'') corrupt_world) = Inl SyntaxError"
    by code_simp
  have c: "fst (getFallback linux_host fb_store (lit ''a'') corrupt_world) = Inl SyntaxError"
    by code_simp
  from C4_forced_fallback[OF fb_store_forced, of linux_host "lit ''a''" "lit ''pw''" corrupt_world] a b c
  show ?thesis
    by (auto split: prod.splits sum.splits)
qed

text \<open>
  C4 as stated fails for \<open>get\<close>: with fallback forced and a mapping file that does not
  parse, the cache store raises and \<open>get\<close> returns the not-found value.
\<close>

theorem C4_get_swallows_counterexample:
  "fst (getFallback linux_host fb_store (lit ''a'') corrupt_world) = Inl SyntaxError \<and>
   fst (get linux_host fb_store (lit ''a'') corrupt_world) = Inr None"
  by code_simp

text \<open>
  C5. Once the mapping has been read, the cache store's \<open>get\<close> returns the not-found
  value whenever the account is absent from the mapping or decrypting its entry fails,
  whatever the reason; it does not raise.
\<close>

theorem C5_getFallback_not_found:
  assumes "fst (readCache h s w) = Inr cache"
    and "map_of cache account = None \<or>
         isl (fst (decrypt h s (prop_get cache account) (snd (readCache h s w))))"
  shows "fst (getFallback h s account w) = Inr None"
proof -
  obtain w1 where rc: "readCache h s w = (Inr cache, w1)"
    using assms(1) by (cases "readCache h s w") auto
  have fails: "truthy (prop_get cache account) \<Longrightarrow> isl (fst (decrypt h s (prop_get cache account) w1))"
  proof -
    assume t: "truthy (prop_get cache account)"
    from assms(2) show ?thesis
    proof
      assume "map_of cache account = None"
      then have "\<forall>d. prop_get cache account \<noteq> Str d"
        by (simp add: prop_get_def)
      then show ?thesis by (rule decrypt_nonstring)
    next
      assume "isl (fst (decrypt h s (prop_get cache account) (snd (readCache h s w))))"
      then show ?thesis by (simp add: rc)
    qed
  qed
  show ?thesis
  proof (cases "truthy (prop_get cache account)")
    case False
    then show ?thesis by (simp add: getFallback_def bindE_def rc retE_def)
  next
    case True
    from fails[OF True] obtain e w2 where "decrypt h s (prop_get cache account) w1 = (Inl e, w2)"
      by (cases "decrypt h s (prop_get cache account) w1") (auto simp: isl_def)
    with True show ?thesis
      by (simp add: getFallback_def bindE_def rc retE_def catchE_def)
  qed
qed

theorem C5_getFallback_not_found_witness:
  "fst (getFallback linux_host fb_store (lit ''a'') tampered_world) = Inr None \<and>
   fst (getFallback linux_host fb_store (lit ''b'') tampered_world) = Inr None"
proof -
  define cache where "cache = projr (fst (readCache linux_host fb_store tampered_world))"
  have rc: "fst (readCache linux_host fb_store tampered_world) = Inr cache"
    unfolding cache_def by code_simp
  have d: "isl (fst (decrypt linux_host fb_store (prop_get cache (lit ''a''))
                       (snd (readCache linux_host fb_store tampered_world))))"
    unfolding cache_def by code_simp
  have n: "map_of cache (lit ''b'') = None"
    unfolding cache_def by code_simp
  from C5_getFallback_not_found[OF rc, of "lit ''a''"] d
    C5_getFallback_not_found[OF rc, of "lit ''b''"] n
  show ?thesis by simp
qed



text \<open>
  C7 (as amended). \<open>put\<close> on the cache store overwrites the mapping file in place, with
  one write of the whole serialised mapping. As long as no write is cut short:
  when \<open>put\<close> returns normally, the file holds the complete new mapping (the mapping
  that was read, with the entry of the account replaced); when \<open>put\<close> raises, the file
  is as it was, or, where there was no file, there is none or it holds the empty mapping.
\<close>

theorem C7_put_all_or_nothing:
  assumes np: "no_partial w" and paths: "keyFile s \<noteq> cacheFile s"
    and put: "saveFallback h s account secret w = (r, w')"
  shows "(r = Inr () \<and>
          (\<exists>cache blob.
             fst (readCache h s w) = Inr cache \<and>
             files w' (cacheFile s)
               = Some (utf8_encode h (JSON_stringify h 2 (prop_set cache account blob))))) \<or>
         (r \<noteq> Inr () \<and>
          (files w' (cacheFile s) = files w (cacheFile s) \<or>
           files w (cacheFile s) = None \<and>
           files w' (cacheFile s) = Some (utf8_encode h (JSON_stringify h 0 []))))"
proof (cases "r = Inr ()")
  case True
  with put have "saveFallback h s account secret w = (Inr (), w')" by simp
  from saveFallback_stores[OF this] obtain cache blob where
    "fst (readCache h s w) = Inr cache"
    and "files w' (cacheFile s)
         = Some (utf8_encode h (JSON_stringify h 2 (prop_set cache account blob)))"
    by force
  with True show ?thesis by blast
next
  case False
  from saveFallback_fails_kept[OF np paths put False] False show ?thesis
    by (simp add: cache_kept_def)
qed

theorem C7_put_all_or_nothing_witness:
  "files (snd (saveFallback linux_host fb_store (lit ''a'') (lit ''pw'')
                 (stored_world\<lparr>faults := [NoFault, NoFault, Fail]\<rparr>))) (cacheFile fb_store)
   = files stored_world (cacheFile fb_store) \<and>
   (\<exists>cache blob.
      fst (readCache linux_host fb_store stored_world) = Inr cache \<and>
      files (snd (saveFallback linux_host fb_store (lit ''a'') (lit ''pw'') stored_world))
        (cacheFile fb_store)
      = Some (utf8_encode linux_host (JSON_stringify linux_host 2 (prop_set cache (lit ''a'') blob))))"
proof -
  let ?w = "stored_world\<lparr>faults := [NoFault, NoFault, Fail]\<rparr>"
  have np: "no_partial ?w" by (simp add: no_partial_def)
  have np0: "no_partial stored_world"
    by (simp add: no_partial_def stored_world_def empty_world_def)
  have r: "fst (saveFallback linux_host fb_store (lit ''a'') (lit ''pw'') ?w) \<noteq> Inr ()"
    by code_simp
  have r0: "fst (saveFallback linux_host fb_store (lit ''a'') (lit ''pw'') stored_world) = Inr ()"
    by code_simp
  have f: "files ?w (cacheFile fb_store) \<noteq> None" by code_simp
  have same: "files ?w (cacheFile fb_store) = files stored_world (cacheFile fb_store)" by simp
  have p: "saveFallback linux_host fb_store (lit ''a'') (lit ''pw'') ?w
           = (fst (saveFallback linux_host fb_store (lit ''a'') (lit ''pw'') ?w),
              snd (saveFallback linux_host fb_store (lit ''a'') (lit ''pw'') ?w))"
    by simp
  have p0: "saveFallback linux_host fb_store (lit ''a'') (lit ''pw'') stored_world
           = (fst (saveFallback linux_host fb_store (lit ''a'') (lit ''pw'') stored_world),
              snd (saveFallback linux_host fb_store (lit ''a'') (lit ''pw'') stored_world))"
    by simp
  from C7_put_all_or_nothing[OF np fb_store_paths p] r f same
  have A: "files (snd (saveFallback linux_host fb_store (lit ''a'') (lit ''pw'') ?w))
             (cacheFile fb_store)
           = files stored_world (cacheFile fb_store)"
    by auto
  from C7_put_all_or_nothing[OF np0 fb_store_paths p0] r0
  have B: "\<exists>cache blob.
      fst (readCache linux_host fb_store stored_world) = Inr cache \<and>
      files (snd (saveFallback linux_host fb_store (lit ''a'') (lit ''pw'') stored_world))
        (cacheFile fb_store)
      = Some (utf8_encode linux_host (JSON_stringify linux_host 2 (prop_set cache (lit ''a'') blob)))"
    by auto
  from A B show ?thesis by blast
qed

text \<open>
  C7 as stated fails: there is no temporary file and no atomic replacement. A write
  that fails after three bytes leaves a mapping file that is neither the old one nor
  the new one and that no longer parses; the entry of account \<open>b\<close> is gone.
\<close>

theorem C7_partial_write_counterexample:
  "fst (saveFallback linux_host fb_store (lit ''a'') (lit ''pw'')
          (stored_world\<lparr>faults := [NoFault, NoFault, Partial 3]\<rparr>))
     = Inl (FsError (cacheFile fb_store)) \<and>
   files (snd (saveFallback linux_host fb_store (lit ''a'') (lit ''pw'')
                 (stored_world\<lparr>faults := [NoFault, NoFault, Partial 3]\<rparr>))) (cacheFile fb_store)
     = Some [0, 1, 0] \<and>
   files stored_world (cacheFile fb_store) \<noteq> Some [0, 1, 0] \<and>
   files (snd (saveFallback linux_host fb_store (lit ''a'') (lit ''pw'') stored_world))
     (cacheFile fb_store) \<noteq> Some [0, 1, 0] \<and>
   JSON_parse linux_host (utf8_decode linux_host [0, 1, 0]) = Inl SyntaxError \<and>
   persisted linux_host fb_store stored_world (lit ''b'') = Some (lit ''blob'') \<and>
   persisted linux_host fb_store
     (snd (saveFallback linux_host fb_store (lit ''a'') (lit ''pw'')
             (stored_world\<lparr>faults := [NoFault, NoFault, Partial 3]\<rparr>))) (lit ''b'') = None"
  by code_simp








end
